theory Spec2Isabelle
  imports Complex_Main "HOL-Library.Product_Lexorder"
begin

section \<open>The values of the calculator under exact arithmetic\<close>

text \<open>
  \<^verbatim>\<open>mini.go\<close> computes on Go's \<^verbatim>\<open>float64\<close>. The calculator is modelled twice. This first
  model is the calculator under exact arithmetic, which is what the specification's
  concrete scenario asks for: a value is a real number or one of the three special values
  of the format, and finite arithmetic is exact (no rounding, no overflow, one zero). The
  special values follow the format's rules, so that a division by zero is a value and
  never a failure, as in Go. The second model, further down, is the calculator in
  \<^verbatim>\<open>float64\<close> arithmetic, with every operation rounded.
\<close>

datatype fval = Fin real | PInf | NInf | NaN

fun fneg :: "fval \<Rightarrow> fval" where
  "fneg (Fin x) = Fin (- x)"
| "fneg PInf = NInf"
| "fneg NInf = PInf"
| "fneg NaN = NaN"

fun fadd :: "fval \<Rightarrow> fval \<Rightarrow> fval" where
  "fadd NaN _ = NaN"
| "fadd _ NaN = NaN"
| "fadd PInf NInf = NaN"
| "fadd NInf PInf = NaN"
| "fadd PInf _ = PInf"
| "fadd _ PInf = PInf"
| "fadd NInf _ = NInf"
| "fadd _ NInf = NInf"
| "fadd (Fin x) (Fin y) = Fin (x + y)"

definition fsub :: "fval \<Rightarrow> fval \<Rightarrow> fval" where
  "fsub a b = fadd a (fneg b)"

text \<open>The sign of a value: \<open>True\<close> for a negative one. A zero counts as positive.\<close>

fun fsign :: "fval \<Rightarrow> bool" where
  "fsign (Fin x) = (x < 0)"
| "fsign PInf = False"
| "fsign NInf = True"
| "fsign NaN = False"

definition inf_of :: "bool \<Rightarrow> fval" where
  "inf_of negative = (if negative then NInf else PInf)"

fun is_inf :: "fval \<Rightarrow> bool" where
  "is_inf PInf = True"
| "is_inf NInf = True"
| "is_inf _ = False"

fun is_nan :: "fval \<Rightarrow> bool" where
  "is_nan NaN = True"
| "is_nan _ = False"

fun fmul :: "fval \<Rightarrow> fval \<Rightarrow> fval" where
  "fmul NaN _ = NaN"
| "fmul _ NaN = NaN"
| "fmul (Fin x) (Fin y) = Fin (x * y)"
| "fmul a b =
     (if a = Fin 0 \<or> b = Fin 0 then NaN else inf_of (fsign a \<noteq> fsign b))"

fun fdiv :: "fval \<Rightarrow> fval \<Rightarrow> fval" where
  "fdiv NaN _ = NaN"
| "fdiv _ NaN = NaN"
| "fdiv (Fin x) (Fin y) =
     (if y = 0 then (if x = 0 then NaN else inf_of (x < 0)) else Fin (x / y))"
| "fdiv (Fin x) _ = Fin 0"
| "fdiv a (Fin y) = inf_of (fsign a \<noteq> (y < 0))"
| "fdiv _ _ = NaN"

section \<open>The calculator of \<^verbatim>\<open>mini.go\<close>\<close>

text \<open>
  The five flags of \<^verbatim>\<open>main\<close>, after \<^verbatim>\<open>flag.Parse\<close>. Each is a \<^verbatim>\<open>float64\<close> with default 0;
  the parser also accepts \<^verbatim>\<open>Inf\<close> and \<^verbatim>\<open>NaN\<close>.
\<close>

record args =
  price :: fval
  risk :: fval
  stop :: fval
  financeLevel :: fval
  derivatePrice :: fval

text \<open>One definition for each assignment of \<^verbatim>\<open>main\<close>, named after its variable.\<close>

definition numberOfStocks :: "fval \<Rightarrow> fval \<Rightarrow> fval \<Rightarrow> fval" where
  \<comment> \<open>\<^verbatim>\<open>numberOfStocks := *risk / (*price - *stop)\<close>\<close>
  "numberOfStocks rsk prc stp = fdiv rsk (fsub prc stp)"

definition takeProfit :: "fval \<Rightarrow> fval \<Rightarrow> fval" where
  \<comment> \<open>\<^verbatim>\<open>takeProfit := *price + 2*(*price-*stop)\<close>\<close>
  "takeProfit prc stp = fadd prc (fmul (Fin 2) (fsub prc stp))"

definition paritet :: "fval \<Rightarrow> fval \<Rightarrow> fval" where
  \<comment> \<open>\<^verbatim>\<open>paritet := (*price - *financeLevel) / 100 * 8.34\<close>\<close>
  "paritet prc fl = fmul (fdiv (fsub prc fl) (Fin 100)) (Fin (834 / 100))"

definition miniStop :: "fval \<Rightarrow> fval \<Rightarrow> fval" where
  \<comment> \<open>\<^verbatim>\<open>miniStop := (*stop - *financeLevel) / 100 * 8.34\<close>\<close>
  "miniStop stp fl = fmul (fdiv (fsub stp fl) (Fin 100)) (Fin (834 / 100))"

definition howMany :: "fval \<Rightarrow> fval \<Rightarrow> fval \<Rightarrow> fval" where
  \<comment> \<open>\<^verbatim>\<open>howMany := *risk / (*derivatePrice - miniStop)\<close>\<close>
  "howMany rsk dp ms = fdiv rsk (fsub dp ms)"

definition miniProfit :: "fval \<Rightarrow> fval \<Rightarrow> fval \<Rightarrow> fval \<Rightarrow> fval" where
  \<comment> \<open>\<^verbatim>\<open>miniProfit := (((takeProfit - *financeLevel) / 100 * 8.34) * howMany) - (*derivatePrice * howMany)\<close>\<close>
  "miniProfit tp fl dp hm =
     fsub (fmul (fmul (fdiv (fsub tp fl) (Fin 100)) (Fin (834 / 100))) hm) (fmul dp hm)"

text \<open>
  The error kinds of the specification's engine. \<^verbatim>\<open>main\<close> has no \<^verbatim>\<open>return\<close>, no exit and
  no call that can panic between \<^verbatim>\<open>flag.Parse\<close> and its last line, so none of them is
  ever produced by the calculator: they are here to state what the specification asks.
\<close>

datatype EngineError = InvalidParameters | DegenerateSizing | NoCandidates

text \<open>
  A run of \<^verbatim>\<open>main\<close>: the six lines it prints, in order, each as its label and the value
  formatted after it.
\<close>

definition main :: "args \<Rightarrow> EngineError + (string \<times> fval) list" where
  "main a =
     (let nos = numberOfStocks (risk a) (price a) (stop a);
          tp = takeProfit (price a) (stop a);
          par = paritet (price a) (financeLevel a);
          ms = miniStop (stop a) (financeLevel a);
          hm = howMany (risk a) (derivatePrice a) ms;
          mp = miniProfit tp (financeLevel a) (derivatePrice a) hm
      in Inr [(''Stock> Number of stocks'', nos),
              (''Stock> Take profit'', tp),
              (''Mini> Leverage'', par),
              (''Mini> Stop'', ms),
              (''Mini> How many can I buy'', hm),
              (''Mini> Profit'', mp)])"


section \<open>The values of the calculator in \<^verbatim>\<open>float64\<close> arithmetic\<close>

text \<open>
  A \<^verbatim>\<open>float64\<close> is a finite number with its sign bit (\<open>True\<close> for negative) and its
  magnitude, so that there are two zeros, or an infinity with its sign, or NaN (whose sign
  and payload are not kept). The finite magnitudes of the format are the numbers
  \<open>m * 2 ^ e\<close> with \<open>m < 2 ^ 53\<close> and \<open>- 1074 \<le> e \<le> 971\<close>.
\<close>

datatype f64 = F64 bool real | Inf64 bool | NaN64

text \<open>Rounding of a non-negative number to an integer, to the nearest, a tie to the even one.\<close>

definition rne :: "real \<Rightarrow> int" where
  "rne y =
     (let n = \<lfloor>y\<rfloor>; d = y - of_int n
      in if d < 1 / 2 then n else if 1 / 2 < d then n + 1 else if even n then n else n + 1)"

text \<open>
  The exponent of the last place. A magnitude of at least \<open>2 ^ 53\<close> is halved until it is
  below \<open>2 ^ 53\<close>, at most 971 times; a smaller one is doubled until it reaches \<open>2 ^ 52\<close>, at
  most 1074 times (the subnormal numbers stop there).
\<close>

function scale_down :: "real \<Rightarrow> nat \<Rightarrow> nat" where
  "scale_down a k = (if 2 ^ 53 \<le> a / 2 ^ k \<and> k < 971 then scale_down a (k + 1) else k)"
  by pat_completeness auto
termination
  by (relation "measure (\<lambda>(a, k). 971 - k)") auto

function scale_up :: "real \<Rightarrow> nat \<Rightarrow> nat" where
  "scale_up a k = (if a * 2 ^ k < 2 ^ 52 \<and> k < 1074 then scale_up a (k + 1) else k)"
  by pat_completeness auto
termination
  by (relation "measure (\<lambda>(a, k). 1074 - k)") auto

text \<open>
  Rounding of a non-negative real number to the nearest magnitude of the format, a tie to
  the even one. \<open>None\<close> is the overflow: the rounded magnitude would be \<open>2 ^ 1024\<close> or more.
  A magnitude below half of the least subnormal number rounds to zero.
\<close>

definition rnd_mag :: "real \<Rightarrow> real option" where
  "rnd_mag a =
     (if a = 0 then Some 0
      else if 2 ^ 53 \<le> a then
        (let k = scale_down a 0; m = rne (a / 2 ^ k)
         in if 2 ^ 53 \<le> m \<and> k = 971 then None else Some (of_int m * 2 ^ k))
      else
        (let k = scale_up a 0; m = rne (a * 2 ^ k)
         in Some (of_int m / 2 ^ k)))"

text \<open>The result of an operation with sign \<open>s\<close> and exact magnitude \<open>a\<close>.\<close>

definition round64 :: "bool \<Rightarrow> real \<Rightarrow> f64" where
  "round64 s a = (case rnd_mag a of None \<Rightarrow> Inf64 s | Some m \<Rightarrow> F64 s m)"

text \<open>A real number is a value of the format when rounding leaves it as it is.\<close>

definition is_double :: "real \<Rightarrow> bool" where
  "is_double r = (rnd_mag \<bar>r\<bar> = Some \<bar>r\<bar>)"

definition sval :: "bool \<Rightarrow> real \<Rightarrow> real" where
  "sval s m = (if s then - \<bar>m\<bar> else \<bar>m\<bar>)"

text \<open>The real number a finite value stands for; both zeros stand for 0.\<close>

fun val64 :: "f64 \<Rightarrow> real option" where
  "val64 (F64 s m) = Some (sval s m)"
| "val64 _ = None"

fun sign64 :: "f64 \<Rightarrow> bool" where
  "sign64 (F64 s m) = s"
| "sign64 (Inf64 s) = s"
| "sign64 NaN64 = False"

fun nonfinite64 :: "f64 \<Rightarrow> bool" where
  "nonfinite64 (F64 s m) = False"
| "nonfinite64 _ = True"

text \<open>
  Two values compare equal in the sense of the claims when they are the same value or
  finite with the same number (the two zeros are equal).
\<close>

definition same_value :: "f64 \<Rightarrow> f64 \<Rightarrow> bool" where
  "same_value x y =
     (x = y \<or> (case (val64 x, val64 y) of (Some a, Some b) \<Rightarrow> a = b | _ \<Rightarrow> False))"

fun neg64 :: "f64 \<Rightarrow> f64" where
  "neg64 (F64 s m) = F64 (\<not> s) m"
| "neg64 (Inf64 s) = Inf64 (\<not> s)"
| "neg64 NaN64 = NaN64"

text \<open>
  Addition. An exact sum of zero is the positive zero, except that two negative zeros give
  the negative zero.
\<close>

fun add64 :: "f64 \<Rightarrow> f64 \<Rightarrow> f64" where
  "add64 NaN64 _ = NaN64"
| "add64 _ NaN64 = NaN64"
| "add64 (Inf64 s) (Inf64 t) = (if s = t then Inf64 s else NaN64)"
| "add64 (Inf64 s) _ = Inf64 s"
| "add64 _ (Inf64 t) = Inf64 t"
| "add64 (F64 s a) (F64 t b) =
     (let r = sval s a + sval t b
      in if r = 0 then F64 (s \<and> t) 0 else round64 (r < 0) \<bar>r\<bar>)"

definition sub64 :: "f64 \<Rightarrow> f64 \<Rightarrow> f64" where
  "sub64 x y = add64 x (neg64 y)"

fun mul64 :: "f64 \<Rightarrow> f64 \<Rightarrow> f64" where
  "mul64 NaN64 _ = NaN64"
| "mul64 _ NaN64 = NaN64"
| "mul64 (Inf64 s) (Inf64 t) = Inf64 (s \<noteq> t)"
| "mul64 (Inf64 s) (F64 t b) = (if b = 0 then NaN64 else Inf64 (s \<noteq> t))"
| "mul64 (F64 s a) (Inf64 t) = (if a = 0 then NaN64 else Inf64 (s \<noteq> t))"
| "mul64 (F64 s a) (F64 t b) = round64 (s \<noteq> t) (\<bar>a\<bar> * \<bar>b\<bar>)"

fun div64 :: "f64 \<Rightarrow> f64 \<Rightarrow> f64" where
  "div64 NaN64 _ = NaN64"
| "div64 _ NaN64 = NaN64"
| "div64 (Inf64 s) (Inf64 t) = NaN64"
| "div64 (Inf64 s) (F64 t b) = Inf64 (s \<noteq> t)"
| "div64 (F64 s a) (Inf64 t) = F64 (s \<noteq> t) 0"
| "div64 (F64 s a) (F64 t b) =
     (if b = 0 then (if a = 0 then NaN64 else Inf64 (s \<noteq> t))
      else round64 (s \<noteq> t) (\<bar>a\<bar> / \<bar>b\<bar>))"

text \<open>A constant of the program text, converted to the nearest value of the format.\<close>

definition const64 :: "real \<Rightarrow> f64" where
  "const64 c = round64 (c < 0) \<bar>c\<bar>"

section \<open>The calculator of \<^verbatim>\<open>mini.go\<close> in \<^verbatim>\<open>float64\<close> arithmetic\<close>

text \<open>
  The same six assignments, each operation rounded on its own, in the order in which Go
  evaluates them (as on amd64, where Go does not fuse a multiplication with an addition).
\<close>

definition numberOfStocks64 :: "f64 \<Rightarrow> f64 \<Rightarrow> f64 \<Rightarrow> f64" where
  \<comment> \<open>\<^verbatim>\<open>numberOfStocks := *risk / (*price - *stop)\<close>\<close>
  "numberOfStocks64 rsk prc stp = div64 rsk (sub64 prc stp)"

definition takeProfit64 :: "f64 \<Rightarrow> f64 \<Rightarrow> f64" where
  \<comment> \<open>\<^verbatim>\<open>takeProfit := *price + 2*(*price-*stop)\<close>\<close>
  "takeProfit64 prc stp = add64 prc (mul64 (const64 2) (sub64 prc stp))"

definition paritet64 :: "f64 \<Rightarrow> f64 \<Rightarrow> f64" where
  \<comment> \<open>\<^verbatim>\<open>paritet := (*price - *financeLevel) / 100 * 8.34\<close>\<close>
  "paritet64 prc fl = mul64 (div64 (sub64 prc fl) (const64 100)) (const64 (834 / 100))"

definition miniStop64 :: "f64 \<Rightarrow> f64 \<Rightarrow> f64" where
  \<comment> \<open>\<^verbatim>\<open>miniStop := (*stop - *financeLevel) / 100 * 8.34\<close>\<close>
  "miniStop64 stp fl = mul64 (div64 (sub64 stp fl) (const64 100)) (const64 (834 / 100))"

definition howMany64 :: "f64 \<Rightarrow> f64 \<Rightarrow> f64 \<Rightarrow> f64" where
  \<comment> \<open>\<^verbatim>\<open>howMany := *risk / (*derivatePrice - miniStop)\<close>\<close>
  "howMany64 rsk dp ms = div64 rsk (sub64 dp ms)"

definition miniProfit64 :: "f64 \<Rightarrow> f64 \<Rightarrow> f64 \<Rightarrow> f64 \<Rightarrow> f64" where
  \<comment> \<open>\<^verbatim>\<open>miniProfit := (((takeProfit - *financeLevel) / 100 * 8.34) * howMany) - (*derivatePrice * howMany)\<close>\<close>
  "miniProfit64 tp fl dp hm =
     sub64 (mul64 (mul64 (div64 (sub64 tp fl) (const64 100)) (const64 (834 / 100))) hm)
       (mul64 dp hm)"

text \<open>
  A run of \<^verbatim>\<open>main\<close> on the values of the flags \<^verbatim>\<open>price\<close>, \<^verbatim>\<open>risk\<close>, \<^verbatim>\<open>stop\<close>,
  \<^verbatim>\<open>financeLevel\<close> and \<^verbatim>\<open>derivatePrice\<close>: the six lines it prints, in order.
\<close>

definition main64 ::
  "f64 \<Rightarrow> f64 \<Rightarrow> f64 \<Rightarrow> f64 \<Rightarrow> f64 \<Rightarrow> EngineError + (string \<times> f64) list" where
  "main64 prc rsk stp fl dp =
     (let nos = numberOfStocks64 rsk prc stp;
          tp = takeProfit64 prc stp;
          par = paritet64 prc fl;
          ms = miniStop64 stp fl;
          hm = howMany64 rsk dp ms;
          mp = miniProfit64 tp fl dp hm
      in Inr [(''Stock> Number of stocks'', nos),
              (''Stock> Take profit'', tp),
              (''Mini> Leverage'', par),
              (''Mini> Stop'', ms),
              (''Mini> How many can I buy'', hm),
              (''Mini> Profit'', mp)])"

section \<open>The engine of the specification\<close>

text \<open>
  The selection engine (take-profit calculator, instrument filter, ranker, position
  sizer, shortlist selector) is not part of \<^verbatim>\<open>mini.go\<close>. The definitions of this section
  follow the specification's wording; their names start with \<open>spec_\<close>. They serve to
  state what the specification asks of the calculator, and to settle the properties of
  the filter, for which the repository's sources hold no code.
\<close>

datatype Direction = Long | Short

text \<open>Modelled from the spec: the direction of a plan, Long if entryPrice > stopPrice else Short.\<close>

definition spec_direction :: "real \<Rightarrow> real \<Rightarrow> Direction" where
  "spec_direction entry stp = (if entry > stp then Long else Short)"

definition direction_sign :: "Direction \<Rightarrow> real" where
  "direction_sign d = (case d of Long \<Rightarrow> 1 | Short \<Rightarrow> - 1)"

text \<open>
  Modelled from the spec: the take-profit price,
  \<^verbatim>\<open>entryPrice + direction * rewardRiskRatio * |entryPrice - stopPrice|\<close>.
\<close>

definition spec_takeProfitPrice :: "real \<Rightarrow> real \<Rightarrow> real \<Rightarrow> real" where
  "spec_takeProfitPrice entry stp rr =
     entry + direction_sign (spec_direction entry stp) * rr * \<bar>entry - stp\<bar>"

text \<open>
  Modelled from the spec: the take-profit calculator, which fails with InvalidParameters
  if entryPrice = stopPrice or rewardRiskRatio \<le> 0.
\<close>

definition spec_TakeProfitCalculator ::
  "real \<Rightarrow> real \<Rightarrow> real \<Rightarrow> EngineError + (real \<times> Direction)" where
  "spec_TakeProfitCalculator entry stp rr =
     (if entry = stp \<or> rr \<le> 0 then Inl InvalidParameters
      else Inr (spec_takeProfitPrice entry stp rr, spec_direction entry stp))"

record RiskProfile =
  entryPrice :: real
  underlyingName :: string
  riskAmount :: real
  stopPrice :: real
  rewardRiskRatio :: real

record Instrument =
  identifier_i :: string
  underlyingName_i :: string
  side :: Direction
  financeLevel_i :: real
  parityOrMultiplier :: real
  lastPrice :: real

record SizingResult =
  instrument :: Instrument
  leverage :: real
  stopInInstrumentTerms :: real
  unitsAffordable :: real
  projectedProfit :: real

record ShortlistReport =
  report_takeProfitPrice :: real
  report_direction :: Direction
  report_rows :: "SizingResult list"

text \<open>
  Modelled from the spec: the rule of the instrument filter. The side agrees with the
  direction; for Long the finance level is strictly below the stop, for Short strictly
  above.
\<close>

definition spec_passes :: "Direction \<Rightarrow> real \<Rightarrow> Instrument \<Rightarrow> bool" where
  "spec_passes d stp i =
     (side i = d \<and>
      (case d of Long \<Rightarrow> financeLevel_i i < stp | Short \<Rightarrow> financeLevel_i i > stp))"

text \<open>Modelled from the spec: the instrument filter, which drops the others silently.\<close>

definition spec_InstrumentFilter :: "Direction \<Rightarrow> real \<Rightarrow> Instrument list \<Rightarrow> Instrument list" where
  "spec_InstrumentFilter d stp xs = filter (spec_passes d stp) xs"

text \<open>
  Modelled from the spec: the leverage, \<^verbatim>\<open>(entryPrice - financeLevel) / 100 * parityOrMultiplier\<close>
  for Long and \<^verbatim>\<open>(financeLevel - entryPrice) / 100 * parityOrMultiplier\<close> for Short.
\<close>

definition spec_leverage :: "Direction \<Rightarrow> real \<Rightarrow> real \<Rightarrow> real \<Rightarrow> real" where
  "spec_leverage d entry fl parity =
     (case d of Long \<Rightarrow> (entry - fl) / 100 * parity | Short \<Rightarrow> (fl - entry) / 100 * parity)"

text \<open>
  Modelled from the spec: the stop in instrument terms,
  \<^verbatim>\<open>(stopPrice - financeLevel) / 100 * parityOrMultiplier\<close>, mirrored for Short.
\<close>

definition spec_stopInInstrumentTerms :: "Direction \<Rightarrow> real \<Rightarrow> real \<Rightarrow> real \<Rightarrow> real" where
  "spec_stopInInstrumentTerms d stp fl parity =
     (case d of Long \<Rightarrow> (stp - fl) / 100 * parity | Short \<Rightarrow> (fl - stp) / 100 * parity)"

text \<open>
  Modelled from the spec: the units affordable,
  \<^verbatim>\<open>riskAmount / (lastPrice - stopInInstrumentTerms)\<close>, failing with DegenerateSizing if the
  denominator is \<le> 0.
\<close>

definition spec_unitsAffordable :: "real \<Rightarrow> real \<Rightarrow> real \<Rightarrow> EngineError + real" where
  "spec_unitsAffordable rsk lastp stopInstr =
     (if lastp - stopInstr \<le> 0 then Inl DegenerateSizing
      else Inr (rsk / (lastp - stopInstr)))"

text \<open>
  Modelled from the spec: the projected profit,
  \<^verbatim>\<open>((takeProfitPrice - financeLevel) / 100 * parityOrMultiplier) * unitsAffordable - lastPrice * unitsAffordable\<close>,
  with the price difference mirrored for Short.
\<close>

definition spec_projectedProfit ::
  "Direction \<Rightarrow> real \<Rightarrow> real \<Rightarrow> real \<Rightarrow> real \<Rightarrow> real \<Rightarrow> real" where
  "spec_projectedProfit d tp fl parity units lastp =
     (case d of
        Long \<Rightarrow> ((tp - fl) / 100 * parity) * units - lastp * units
      | Short \<Rightarrow> ((fl - tp) / 100 * parity) * units - lastp * units)"

text \<open>
  Modelled from the spec: the ranker's keys, ascending distance of the finance level to
  the stop, then descending leverage (ascending negated leverage).
\<close>

definition spec_rank_key :: "Direction \<Rightarrow> real \<Rightarrow> real \<Rightarrow> Instrument \<Rightarrow> real \<times> real" where
  "spec_rank_key d entry stp i =
     (\<bar>financeLevel_i i - stp\<bar>,
      - spec_leverage d entry (financeLevel_i i) (parityOrMultiplier i))"

text \<open>Modelled from the spec: the ranker, a stable sort on the two keys.\<close>

definition spec_Ranker :: "Direction \<Rightarrow> real \<Rightarrow> real \<Rightarrow> Instrument list \<Rightarrow> Instrument list" where
  "spec_Ranker d entry stp xs = sort_key (spec_rank_key d entry stp) xs"

text \<open>Modelled from the spec: the position sizer, applied to one instrument.\<close>

definition spec_PositionSizer ::
  "RiskProfile \<Rightarrow> Direction \<Rightarrow> real \<Rightarrow> Instrument \<Rightarrow> EngineError + SizingResult" where
  "spec_PositionSizer p d tp i =
     (let lev = spec_leverage d (entryPrice p) (financeLevel_i i) (parityOrMultiplier i);
          sit = spec_stopInInstrumentTerms d (stopPrice p) (financeLevel_i i) (parityOrMultiplier i)
      in case spec_unitsAffordable (riskAmount p) (lastPrice i) sit of
           Inl e \<Rightarrow> Inl e
         | Inr units \<Rightarrow>
             Inr \<lparr>instrument = i, leverage = lev, stopInInstrumentTerms = sit,
                  unitsAffordable = units,
                  projectedProfit =
                    spec_projectedProfit d tp (financeLevel_i i) (parityOrMultiplier i)
                      units (lastPrice i)\<rparr>)"

text \<open>
  Modelled from the spec: sizing of the ranked list. An instrument whose sizing is
  degenerate is skipped and the others are kept.
\<close>

fun spec_size_all ::
  "RiskProfile \<Rightarrow> Direction \<Rightarrow> real \<Rightarrow> Instrument list \<Rightarrow> SizingResult list" where
  "spec_size_all p d tp [] = []"
| "spec_size_all p d tp (i # rest) =
     (case spec_PositionSizer p d tp i of
        Inl e \<Rightarrow> spec_size_all p d tp rest
      | Inr r \<Rightarrow> r # spec_size_all p d tp rest)"

text \<open>
  Modelled from the spec: the shortlist selector, the first N entries, NoCandidates for
  an empty list.
\<close>

definition spec_ShortlistSelector ::
  "nat \<Rightarrow> SizingResult list \<Rightarrow> EngineError + SizingResult list" where
  "spec_ShortlistSelector n rs = (if rs = [] then Inl NoCandidates else Inr (take n rs))"

text \<open>
  Modelled from the spec: the operation \<^verbatim>\<open>select\<close>. InvalidParameters (equal entry and stop,
  non-positive risk or ratio) is detected first; then the list is filtered, ranked, sized
  and cut to the first topN entries.
\<close>

definition spec_select ::
  "RiskProfile \<Rightarrow> Instrument list \<Rightarrow> nat \<Rightarrow> EngineError + ShortlistReport" where
  "spec_select p instruments topN =
     (if riskAmount p \<le> 0 then Inl InvalidParameters
      else case spec_TakeProfitCalculator (entryPrice p) (stopPrice p) (rewardRiskRatio p) of
        Inl e \<Rightarrow> Inl e
      | Inr (tp, d) \<Rightarrow>
          (let filtered = spec_InstrumentFilter d (stopPrice p) instruments;
               ranked = spec_Ranker d (entryPrice p) (stopPrice p) filtered;
               sized = spec_size_all p d tp ranked
           in case spec_ShortlistSelector topN sized of
                Inl e \<Rightarrow> Inl e
              | Inr rows \<Rightarrow>
                  Inr \<lparr>report_takeProfitPrice = tp, report_direction = d,
                       report_rows = rows\<rparr>))"

section \<open>The calculator under exact arithmetic, on finite inputs\<close>

lemma takeProfit_Fin: "takeProfit (Fin p) (Fin s) = Fin (p + 2 * (p - s))"
  by (simp add: takeProfit_def fsub_def)

lemma paritet_Fin: "paritet (Fin p) (Fin f) = Fin ((p - f) / 100 * (834 / 100))"
  by (simp add: paritet_def fsub_def)

lemma miniStop_Fin: "miniStop (Fin s) (Fin f) = Fin ((s - f) / 100 * (834 / 100))"
  by (simp add: miniStop_def fsub_def)

lemma howMany_Fin: "d \<noteq> ms \<Longrightarrow> howMany (Fin r) (Fin d) (Fin ms) = Fin (r / (d - ms))"
  by (simp add: howMany_def fsub_def)

lemma numberOfStocks_Fin:
  "p \<noteq> s \<Longrightarrow> numberOfStocks (Fin r) (Fin p) (Fin s) = Fin (r / (p - s))"
  by (simp add: numberOfStocks_def fsub_def)

lemma miniProfit_Fin:
  "miniProfit (Fin tp) (Fin f) (Fin d) (Fin u) = Fin ((tp - f) / 100 * (834 / 100) * u - d * u)"
  by (simp add: miniProfit_def fsub_def)

text \<open>A division by a difference of two equal values is never a finite number.\<close>

lemma fsub_self: "fsub x x = Fin 0 \<or> fsub x x = NaN"
  by (cases x) (simp_all add: fsub_def)

lemma fdiv_zero: "is_inf (fdiv r (Fin 0)) \<or> is_nan (fdiv r (Fin 0))"
  by (cases r) (simp_all add: inf_of_def)

lemma fdiv_NaN: "fdiv r NaN = NaN"
  by (cases r) simp_all

lemma fdiv_fsub_self: "is_inf (fdiv r (fsub x x)) \<or> is_nan (fdiv r (fsub x x))"
  using fsub_self [of x] fdiv_zero [of r] by (auto simp: fdiv_NaN)

text \<open>The six lines of a run, without the local names.\<close>

lemma main_lines:
  "main a =
     Inr [(''Stock> Number of stocks'', numberOfStocks (risk a) (price a) (stop a)),
          (''Stock> Take profit'', takeProfit (price a) (stop a)),
          (''Mini> Leverage'', paritet (price a) (financeLevel a)),
          (''Mini> Stop'', miniStop (stop a) (financeLevel a)),
          (''Mini> How many can I buy'',
             howMany (risk a) (derivatePrice a) (miniStop (stop a) (financeLevel a))),
          (''Mini> Profit'',
             miniProfit (takeProfit (price a) (stop a)) (financeLevel a) (derivatePrice a)
               (howMany (risk a) (derivatePrice a) (miniStop (stop a) (financeLevel a))))]"
  by (simp add: main_def Let_def)

section \<open>The calculator in \<^verbatim>\<open>float64\<close> arithmetic: operations at their exact results\<close>

text \<open>
  The constants of the program text, and each operation where its exact result is a value
  of the format: there the operation returns that result.
\<close>

lemma rnd_mag_0: "rnd_mag 0 = Some 0"
  by (simp add: rnd_mag_def)

lemma const64_2: "const64 2 = F64 False 2"
  by (simp add: const64_def round64_def rnd_mag_def rne_def Let_def)

lemma const64_100: "const64 100 = F64 False 100"
  by (simp add: const64_def round64_def rnd_mag_def rne_def Let_def)

lemma const64_834: "const64 (834 / 100) = F64 False (2347501305766871 / 2 ^ 48)"
  by (simp add: const64_def round64_def rnd_mag_def rne_def Let_def)

lemma round64_double: "is_double r \<Longrightarrow> round64 s \<bar>r\<bar> = F64 s \<bar>r\<bar>"
  by (simp add: round64_def is_double_def)

lemma sign64_round64: "sign64 (round64 s a) = s"
  by (simp add: round64_def split: option.splits)

lemma round64_not_NaN: "round64 s a \<noteq> NaN64"
  by (simp add: round64_def split: option.splits)

lemma val64_SomeE: "val64 x = Some a \<Longrightarrow> \<exists>s m. x = F64 s m \<and> a = sval s m"
  by (cases x) auto

lemma val_neg64: "val64 x = Some a \<Longrightarrow> val64 (neg64 x) = Some (- a)"
  by (cases x) (auto simp: sval_def)

lemma val_add64:
  assumes "val64 x = Some a" and "val64 y = Some b" and "is_double (a + b)"
  shows "val64 (add64 x y) = Some (a + b)"
proof -
  from assms(1) obtain s m where x: "x = F64 s m" "a = sval s m"
    by (auto dest: val64_SomeE)
  from assms(2) obtain t n where y: "y = F64 t n" "b = sval t n"
    by (auto dest: val64_SomeE)
  show ?thesis
  proof (cases "a + b = 0")
    case True
    with x y show ?thesis by (simp add: sval_def)
  next
    case False
    with x y assms(3) show ?thesis
      by (simp add: Let_def round64_double) (simp add: sval_def)
  qed
qed

lemma val_sub64:
  assumes "val64 x = Some a" and "val64 y = Some b" and "is_double (a - b)"
  shows "val64 (sub64 x y) = Some (a - b)"
  using val_add64 [OF assms(1) val_neg64 [OF assms(2)]] assms(3) by (simp add: sub64_def)

lemma val_mul64:
  assumes "val64 x = Some a" and "val64 y = Some b" and "is_double (a * b)"
  shows "val64 (mul64 x y) = Some (a * b)"
proof -
  from assms(1) obtain s m where x: "x = F64 s m" "a = sval s m"
    by (auto dest: val64_SomeE)
  from assms(2) obtain t n where y: "y = F64 t n" "b = sval t n"
    by (auto dest: val64_SomeE)
  have abs: "\<bar>m\<bar> * \<bar>n\<bar> = \<bar>a * b\<bar>"
    using x y by (simp add: sval_def abs_mult)
  have "mul64 x y = F64 (s \<noteq> t) \<bar>a * b\<bar>"
    using x y abs assms(3) by (simp add: round64_double)
  moreover have "sval (s \<noteq> t) \<bar>a * b\<bar> = a * b"
    using x y by (auto simp: sval_def abs_mult)
  ultimately show ?thesis by simp
qed

lemma val_div64:
  assumes "val64 x = Some a" and "val64 y = Some b" and "b \<noteq> 0" and "is_double (a / b)"
  shows "val64 (div64 x y) = Some (a / b)"
proof -
  from assms(1) obtain s m where x: "x = F64 s m" and a: "a = sval s m"
    by (auto dest: val64_SomeE)
  from assms(2) obtain t n where y: "y = F64 t n" and b: "b = sval t n"
    by (auto dest: val64_SomeE)
  have n: "n \<noteq> 0"
    using b assms(3) by (auto simp: sval_def split: if_splits)
  have abs: "\<bar>m\<bar> / \<bar>n\<bar> = \<bar>a / b\<bar>"
    using a b by (simp add: sval_def)
  have "div64 x y = round64 (s \<noteq> t) (\<bar>m\<bar> / \<bar>n\<bar>)"
    using x y n by simp
  also have "\<dots> = round64 (s \<noteq> t) \<bar>a / b\<bar>"
    by (simp only: abs)
  also have "\<dots> = F64 (s \<noteq> t) \<bar>a / b\<bar>"
    by (rule round64_double [OF assms(4)])
  finally have "div64 x y = F64 (s \<noteq> t) \<bar>a / b\<bar>" .
  moreover have "sval (s \<noteq> t) \<bar>a / b\<bar> = a / b"
    using a b by (auto simp: sval_def)
  ultimately show ?thesis by simp
qed

lemma sub64_same: "same_value x y \<Longrightarrow> sub64 x y = NaN64 \<or> (\<exists>s. sub64 x y = F64 s 0)"
proof (cases x; cases y)
qed (auto simp: same_value_def sub64_def sval_def Let_def)

lemma div64_zero: "nonfinite64 (div64 r (F64 s 0))"
  by (cases r) auto

lemma div64_NaN: "div64 r NaN64 = NaN64"
  by (cases r) auto

lemma div64_sub64_same: "same_value x y \<Longrightarrow> nonfinite64 (div64 r (sub64 x y))"
  using sub64_same [of x y] by (auto simp: div64_zero div64_NaN)

lemma mul64_nonfinite: "nonfinite64 h \<Longrightarrow> nonfinite64 (mul64 x h)"
  by (cases x; cases h) auto

lemma sub64_nonfinite: "nonfinite64 x \<Longrightarrow> nonfinite64 y \<Longrightarrow> nonfinite64 (sub64 x y)"
  by (cases x; cases y) (auto simp: sub64_def)

lemma main64_lines:
  "main64 prc rsk stp fl dp =
     Inr [(''Stock> Number of stocks'', numberOfStocks64 rsk prc stp),
          (''Stock> Take profit'', takeProfit64 prc stp),
          (''Mini> Leverage'', paritet64 prc fl),
          (''Mini> Stop'', miniStop64 stp fl),
          (''Mini> How many can I buy'', howMany64 rsk dp (miniStop64 stp fl)),
          (''Mini> Profit'',
             miniProfit64 (takeProfit64 prc stp) fl dp (howMany64 rsk dp (miniStop64 stp fl)))]"
  by (simp add: main64_def Let_def)

text \<open>The sign of a difference of two finite values that differ.\<close>

lemma sub64_sign:
  assumes "val64 x = Some a" and "val64 y = Some b" and "a \<noteq> b"
  shows "sub64 x y = round64 (a < b) \<bar>a - b\<bar>"
proof -
  from assms(1) obtain s m where x: "x = F64 s m" "a = sval s m"
    by (auto dest: val64_SomeE)
  from assms(2) obtain t n where y: "y = F64 t n" "b = sval t n"
    by (auto dest: val64_SomeE)
  have "sval (\<not> t) n = - b"
    using y by (simp add: sval_def)
  with x y assms(3) show ?thesis
    by (simp add: sub64_def Let_def)
qed


lemmas eval64 = round64_def rnd_mag_def rne_def is_double_def sval_def Let_def sub64_def
  const64_2 const64_100

section \<open>The take-profit price\<close>

text \<open>
  Claim C1, as stated: the take-profit price follows the reward:risk ratio that the caller
  supplies. The calculator has no such input. At entry 100 and stop 95 it gives 110, under
  exact arithmetic and in \<^verbatim>\<open>float64\<close> alike, where a ratio of 3 asks for 115.
\<close>

theorem takeProfit_caller_ratio_counterexample:
  "(100::real) \<noteq> 95 \<and> (0::real) < 3 \<and> takeProfit (Fin 100) (Fin 95) = Fin 110
   \<and> spec_takeProfitPrice 100 95 3 = 115
   \<and> takeProfit (Fin 100) (Fin 95) \<noteq> Fin (spec_takeProfitPrice 100 95 3)
   \<and> takeProfit64 (F64 False 100) (F64 False 95) = F64 False 110"
  by (simp add: takeProfit_Fin spec_takeProfitPrice_def spec_direction_def direction_sign_def
      takeProfit64_def eval64)

text \<open>
  Claim C1, amended: the take-profit price is \<^verbatim>\<open>price + 2 * (price - stop)\<close> evaluated in
  \<^verbatim>\<open>float64\<close>, the ratio being the constant 2. For finite prices, whenever the
  difference, its double and the sum are values of the format (nothing is rounded and
  nothing overflows), the result is exactly \<^verbatim>\<open>entry + direction * 2 * |entry - stop|\<close>,
  the specification's formula at the ratio 2; that is \<^verbatim>\<open>entry + 2 * (entry - stop)\<close>, the
  same number as \<^verbatim>\<open>entry - 2 * (stop - entry)\<close>.
\<close>

theorem takeProfit64_fixed_ratio:
  assumes "val64 x = Some e" and "val64 y = Some s"
    and "is_double (e - s)" and "is_double (2 * (e - s))" and "is_double (e + 2 * (e - s))"
  shows "val64 (takeProfit64 x y) = Some (spec_takeProfitPrice e s 2)
    \<and> spec_takeProfitPrice e s 2 = e + 2 * (e - s)
    \<and> spec_takeProfitPrice e s 2 = e - 2 * (s - e)"
proof -
  have two: "val64 (const64 2) = Some 2"
    by (simp add: const64_2 sval_def)
  have "val64 (sub64 x y) = Some (e - s)"
    using assms(1,2,3) by (rule val_sub64)
  with two have "val64 (mul64 (const64 2) (sub64 x y)) = Some (2 * (e - s))"
    using assms(4) by (rule val_mul64)
  with assms(1) have "val64 (takeProfit64 x y) = Some (e + 2 * (e - s))"
    unfolding takeProfit64_def using assms(5) by (rule val_add64)
  then show ?thesis
    by (simp add: spec_takeProfitPrice_def spec_direction_def direction_sign_def)
qed

theorem takeProfit64_fixed_ratio_witness:
  "val64 (takeProfit64 (F64 False (201 / 2)) (F64 False 95)) = Some (223 / 2)"
  using takeProfit64_fixed_ratio [of "F64 False (201 / 2)" "201 / 2" "F64 False 95" 95]
  by (simp add: is_double_def rnd_mag_def rne_def sval_def Let_def)

section \<open>Equal entry and stop prices\<close>

text \<open>
  Claim C2, as stated: equal entry and stop prices are rejected with InvalidParameters and
  nothing is sized. At price 95 and stop 95 the calculator reports no error and prints all
  six lines, the first with an infinite value.
\<close>

theorem main_equal_price_stop_counterexample:
  "main \<lparr>price = Fin 95, risk = Fin 1000, stop = Fin 95, financeLevel = Fin 90,
          derivatePrice = Fin 10\<rparr> \<noteq> Inl InvalidParameters
   \<and> main \<lparr>price = Fin 95, risk = Fin 1000, stop = Fin 95, financeLevel = Fin 90,
          derivatePrice = Fin 10\<rparr> =
     Inr [(''Stock> Number of stocks'', PInf),
          (''Stock> Take profit'', Fin 95),
          (''Mini> Leverage'', Fin (417 / 1000)),
          (''Mini> Stop'', Fin (417 / 1000)),
          (''Mini> How many can I buy'', Fin (1000000 / 9583)),
          (''Mini> Profit'', Fin (- 1000))]"
  by (simp add: main_def takeProfit_Fin paritet_Fin miniStop_Fin howMany_Fin miniProfit_Fin
      numberOfStocks_def fsub_def inf_of_def)

text \<open>
  Claim C2, amended: when the entry price equals the stop price (a finite value), the
  calculator reports no error. It prints its six lines; the take-profit price is the entry
  price and the number of stocks is an infinity or NaN. The reward:risk ratio is not an
  input, so no ratio is rejected either.
\<close>

theorem main_equal_price_stop:
  assumes "price a = Fin p" and "stop a = Fin p"
  shows "main a \<noteq> Inl InvalidParameters
    \<and> (\<exists>rest. main a =
          Inr ((''Stock> Number of stocks'', numberOfStocks (risk a) (Fin p) (Fin p))
               # (''Stock> Take profit'', Fin p) # rest) \<and> length rest = 4)
    \<and> (is_inf (numberOfStocks (risk a) (Fin p) (Fin p))
        \<or> is_nan (numberOfStocks (risk a) (Fin p) (Fin p)))"
proof -
  have "takeProfit (Fin p) (Fin p) = Fin p"
    by (simp add: takeProfit_Fin)
  with assms have lines: "\<exists>rest. main a =
      Inr ((''Stock> Number of stocks'', numberOfStocks (risk a) (Fin p) (Fin p))
           # (''Stock> Take profit'', Fin p) # rest) \<and> length rest = 4"
    by (simp add: main_lines)
  then have "main a \<noteq> Inl InvalidParameters"
    by auto
  moreover have "is_inf (numberOfStocks (risk a) (Fin p) (Fin p))
      \<or> is_nan (numberOfStocks (risk a) (Fin p) (Fin p))"
    unfolding numberOfStocks_def by (rule fdiv_fsub_self)
  ultimately show ?thesis using lines by blast
qed

theorem main_equal_price_stop_witness:
  "main \<lparr>price = Fin 95, risk = Fin 0, stop = Fin 95, financeLevel = Fin 90,
          derivatePrice = Fin 10\<rparr> \<noteq> Inl InvalidParameters
   \<and> numberOfStocks (Fin 0) (Fin 95) (Fin 95) = NaN"
  using main_equal_price_stop [of "\<lparr>price = Fin 95, risk = Fin 0, stop = Fin 95,
      financeLevel = Fin 90, derivatePrice = Fin 10\<rparr>" 95]
  by (simp add: numberOfStocks_def fsub_def)

section \<open>The number of units\<close>

text \<open>
  Claim C3, as stated: the division is guarded, and a denominator \<le> 0 fails with
  DegenerateSizing. With stop 95 and finance level 90 the calculator's instrument stop is
  0.41700000000000004; at derivative price 0.25 the denominator is negative, the
  specification asks for the error, and the calculator prints - 5988.023952095807 units.
\<close>

theorem howMany_guard_counterexample:
  "miniStop64 (F64 False 95) (F64 False 90) = F64 False (1878001044613497 / 2 ^ 52)
   \<and> spec_unitsAffordable 1000 (1 / 4) (1878001044613497 / 2 ^ 52) = Inl DegenerateSizing
   \<and> howMany64 (F64 False 1000) (F64 False (1 / 4)) (miniStop64 (F64 False 95) (F64 False 90))
       = F64 True (6583901962730537 / 2 ^ 40)
   \<and> main64 (F64 False 100) (F64 False 1000) (F64 False 95) (F64 False 90) (F64 False (1 / 4))
       \<noteq> Inl DegenerateSizing"
proof -
  have ms: "miniStop64 (F64 False 95) (F64 False 90) = F64 False (1878001044613497 / 2 ^ 52)"
    by (simp only: miniStop64_def const64_834) (simp add: eval64)
  have hm: "howMany64 (F64 False 1000) (F64 False (1 / 4)) (F64 False (1878001044613497 / 2 ^ 52))
      = F64 True (6583901962730537 / 2 ^ 40)"
    by (simp add: howMany64_def eval64)
  from ms hm show ?thesis
    by (simp add: spec_unitsAffordable_def main64_lines)
qed

text \<open>
  Claim C3, amended: the number of units is \<^verbatim>\<open>risk / (derivatePrice - miniStop)\<close> evaluated
  in \<^verbatim>\<open>float64\<close> without any guard, and no error is raised. When the derivative price
  equals the instrument stop, it is an infinity or NaN. When the risk is positive and the
  derivative price is below the instrument stop (all finite), it is a negative value.
  Whenever the difference and the quotient are values of the format, it is exactly the
  quotient, which for a positive denominator is the value the specification gives.
\<close>

theorem howMany64_unguarded:
  "(val64 R = Some r \<and> val64 D = Some d \<and> val64 M = Some ms \<and> d \<noteq> ms
      \<and> is_double (d - ms) \<and> is_double (r / (d - ms))
      \<longrightarrow> val64 (howMany64 R D M) = Some (r / (d - ms)))
   \<and> (same_value D M \<longrightarrow> nonfinite64 (howMany64 R D M))
   \<and> (val64 R = Some r \<and> 0 < r \<and> val64 D = Some d \<and> val64 M = Some ms \<and> d < ms
      \<longrightarrow> sign64 (howMany64 R D M) \<and> howMany64 R D M \<noteq> NaN64)
   \<and> (0 < d - ms \<longrightarrow> spec_unitsAffordable r d ms = Inr (r / (d - ms)))
   \<and> (\<exists>ls. main64 prc R stp fl D = Inr ls)"
proof -
  have exact: "val64 (howMany64 R D M) = Some (r / (d - ms))"
    if "val64 R = Some r" "val64 D = Some d" "val64 M = Some ms" "d \<noteq> ms"
      "is_double (d - ms)" "is_double (r / (d - ms))"
  proof -
    have "val64 (sub64 D M) = Some (d - ms)"
      using that(2,3,5) by (rule val_sub64)
    with that(1) show ?thesis
      unfolding howMany64_def using that(4,6) by (intro val_div64) auto
  qed
  have zero: "nonfinite64 (howMany64 R D M)" if "same_value D M"
    unfolding howMany64_def using that by (rule div64_sub64_same)
  have neg: "sign64 (howMany64 R D M) \<and> howMany64 R D M \<noteq> NaN64"
    if "val64 R = Some r" "0 < r" "val64 D = Some d" "val64 M = Some ms" "d < ms"
  proof -
    from that(1,2) obtain a where R: "R = F64 False a" and a: "a \<noteq> 0"
      by (cases R) (auto simp: sval_def split: if_splits)
    have "sub64 D M = round64 True \<bar>d - ms\<bar>"
      using sub64_sign [OF that(3,4)] that(5) by simp
    then consider m where "sub64 D M = F64 True m" | "sub64 D M = Inf64 True"
      by (auto simp: round64_def split: option.splits)
    then show ?thesis
    proof cases
      case 1
      with R a show ?thesis
        by (simp add: howMany64_def sign64_round64 round64_not_NaN)
    next
      case 2
      with R show ?thesis
        by (simp add: howMany64_def)
    qed
  qed
  show ?thesis
    using exact zero neg by (auto simp: spec_unitsAffordable_def main64_lines)
qed

theorem howMany64_unguarded_witness:
  "val64 (howMany64 (F64 False 1100) (F64 False 10) (F64 False (9 / 2))) = Some 200
   \<and> nonfinite64 (howMany64 (F64 False 1100) (F64 False 10) (F64 False 10))
   \<and> sign64 (howMany64 (F64 False 1100) (F64 False 4) (F64 False (9 / 2)))
   \<and> spec_unitsAffordable 1100 10 (9 / 2) = Inr 200"
proof -
  have "val64 (howMany64 (F64 False 1100) (F64 False 10) (F64 False (9 / 2))) = Some 200
      \<and> spec_unitsAffordable 1100 10 (9 / 2) = Inr 200"
    using howMany64_unguarded [of "F64 False 1100" 1100 "F64 False 10" 10 "F64 False (9 / 2)" "9 / 2"]
    by (simp add: is_double_def rnd_mag_def rne_def sval_def Let_def)
  moreover have "nonfinite64 (howMany64 (F64 False 1100) (F64 False 10) (F64 False 10))"
    using howMany64_unguarded [of "F64 False 1100" 1100 "F64 False 10" 10 "F64 False 10" 10]
    by (simp add: same_value_def)
  moreover have "sign64 (howMany64 (F64 False 1100) (F64 False 4) (F64 False (9 / 2)))"
    using howMany64_unguarded [of "F64 False 1100" 1100 "F64 False 4" 4 "F64 False (9 / 2)" "9 / 2"]
    by (simp add: sval_def)
  ultimately show ?thesis by simp
qed

section \<open>The leverage\<close>




section \<open>The projected profit\<close>




section \<open>The concrete scenario\<close>

text \<open>
  Claim C6, as stated: at price 100.50, stop 95, finance level 90, derivative price 10 and
  risk 1000 the units are 104.36 and the profit is - 856.47. The calculator's units are
  1000000 / 9583, which is 104.3514..., and its profit is - 8206900 / 9583, which is
  - 856.4019...; both are further from the stated figures than rounding to two decimals
  allows.
\<close>

theorem main_scenario_counterexample:
  "howMany (Fin 1000) (Fin 10) (miniStop (Fin 95) (Fin 90)) = Fin (1000000 / 9583)
   \<and> \<not> \<bar>1000000 / 9583 - 10436 / 100\<bar> \<le> (5 / 1000 :: real)
   \<and> howMany (Fin 1000) (Fin 10) (miniStop (Fin 95) (Fin 90)) \<noteq> Fin (10436 / 100)
   \<and> miniProfit (takeProfit (Fin (201 / 2)) (Fin 95)) (Fin 90) (Fin 10)
        (howMany (Fin 1000) (Fin 10) (miniStop (Fin 95) (Fin 90))) = Fin (- (8206900 / 9583))
   \<and> \<not> \<bar>- (8206900 / 9583) - (- (85647 / 100))\<bar> \<le> (5 / 1000 :: real)
   \<and> miniProfit (takeProfit (Fin (201 / 2)) (Fin 95)) (Fin 90) (Fin 10)
        (howMany (Fin 1000) (Fin 10) (miniStop (Fin 95) (Fin 90))) \<noteq> Fin (- (85647 / 100))"
  by (simp add: takeProfit_Fin miniStop_Fin howMany_Fin miniProfit_Fin)

text \<open>
  Claim C6, amended: under exact arithmetic the scenario gives take-profit 111.50, leverage
  0.8757, instrument stop 0.417, units 1000000 / 9583 and profit - 8206900 / 9583 (and
  2000 / 11 stocks).
\<close>

theorem main_scenario:
  "main \<lparr>price = Fin (201 / 2), risk = Fin 1000, stop = Fin 95, financeLevel = Fin 90,
          derivatePrice = Fin 10\<rparr> =
     Inr [(''Stock> Number of stocks'', Fin (2000 / 11)),
          (''Stock> Take profit'', Fin (223 / 2)),
          (''Mini> Leverage'', Fin (8757 / 10000)),
          (''Mini> Stop'', Fin (417 / 1000)),
          (''Mini> How many can I buy'', Fin (1000000 / 9583)),
          (''Mini> Profit'', Fin (- (8206900 / 9583)))]"
  by (simp add: main_def takeProfit_Fin paritet_Fin miniStop_Fin howMany_Fin
      numberOfStocks_Fin miniProfit_Fin)

section \<open>Runs are never rejected\<close>

text \<open>
  Claim C9: for every assignment of the five inputs, the special values included, the
  calculator runs to its end and prints all six values; no input is rejected. Neither
  division is guarded: when the price equals the stop the number of stocks is an infinity
  or NaN, and when the derivative price equals the instrument stop that the calculator
  computed, so are the number of units and the profit.
\<close>

theorem main64_never_rejects:
  "main64 prc rsk stp fl dp =
     Inr [(''Stock> Number of stocks'', numberOfStocks64 rsk prc stp),
          (''Stock> Take profit'', takeProfit64 prc stp),
          (''Mini> Leverage'', paritet64 prc fl),
          (''Mini> Stop'', miniStop64 stp fl),
          (''Mini> How many can I buy'', howMany64 rsk dp (miniStop64 stp fl)),
          (''Mini> Profit'',
             miniProfit64 (takeProfit64 prc stp) fl dp (howMany64 rsk dp (miniStop64 stp fl)))]
   \<and> (same_value prc stp \<longrightarrow> nonfinite64 (numberOfStocks64 rsk prc stp))
   \<and> (same_value dp (miniStop64 stp fl) \<longrightarrow>
        nonfinite64 (howMany64 rsk dp (miniStop64 stp fl))
        \<and> nonfinite64 (miniProfit64 (takeProfit64 prc stp) fl dp
             (howMany64 rsk dp (miniStop64 stp fl))))"
proof -
  have "nonfinite64 (numberOfStocks64 rsk prc stp)" if "same_value prc stp"
    unfolding numberOfStocks64_def using that by (rule div64_sub64_same)
  moreover have hm: "nonfinite64 (howMany64 rsk dp (miniStop64 stp fl))"
    if "same_value dp (miniStop64 stp fl)"
    unfolding howMany64_def using that by (rule div64_sub64_same)
  moreover have "nonfinite64 (miniProfit64 (takeProfit64 prc stp) fl dp
      (howMany64 rsk dp (miniStop64 stp fl)))"
    if "same_value dp (miniStop64 stp fl)"
    unfolding miniProfit64_def using hm [OF that] by (intro sub64_nonfinite mul64_nonfinite)
  ultimately show ?thesis
    using main64_lines [of prc rsk stp fl dp] by blast
qed

theorem main64_never_rejects_witness:
  "main64 (F64 False 190) (F64 False 1000) (F64 False 190) (F64 False 90)
     (F64 False (2347501305766871 / 2 ^ 48)) =
     Inr [(''Stock> Number of stocks'', Inf64 False),
          (''Stock> Take profit'', F64 False 190),
          (''Mini> Leverage'', F64 False (2347501305766871 / 2 ^ 48)),
          (''Mini> Stop'', F64 False (2347501305766871 / 2 ^ 48)),
          (''Mini> How many can I buy'', Inf64 False),
          (''Mini> Profit'', NaN64)]"
proof -
  have ms: "miniStop64 (F64 False 190) (F64 False 90) = F64 False (2347501305766871 / 2 ^ 48)"
    by (simp only: miniStop64_def const64_834) (simp add: eval64)
  have par: "paritet64 (F64 False 190) (F64 False 90) = F64 False (2347501305766871 / 2 ^ 48)"
    by (simp only: paritet64_def const64_834) (simp add: eval64)
  have tp: "takeProfit64 (F64 False 190) (F64 False 190) = F64 False 190"
    by (simp add: takeProfit64_def eval64)
  have nos: "numberOfStocks64 (F64 False 1000) (F64 False 190) (F64 False 190) = Inf64 False"
    by (simp add: numberOfStocks64_def eval64)
  have hm: "howMany64 (F64 False 1000) (F64 False (2347501305766871 / 2 ^ 48))
      (F64 False (2347501305766871 / 2 ^ 48)) = Inf64 False"
    by (simp add: howMany64_def eval64)
  have mp: "miniProfit64 (F64 False 190) (F64 False 90) (F64 False (2347501305766871 / 2 ^ 48))
      (Inf64 False) = NaN64"
    by (simp only: miniProfit64_def const64_834) (simp add: eval64)
  from ms par tp nos hm mp show ?thesis
    using main64_never_rejects [of "F64 False 190" "F64 False 1000" "F64 False 190"
        "F64 False 90" "F64 False (2347501305766871 / 2 ^ 48)"]
    by simp
qed

section \<open>The plain-stock position size\<close>

text \<open>
  Claim C10: besides the figures of the instrument, every run computes and prints, as its
  first line, a plain-stock position size, the \<^verbatim>\<open>float64\<close> quotient of the risk by the
  difference of price and stop; for finite inputs with different price and stop it is
  exactly \<^verbatim>\<open>risk / (price - stop)\<close> whenever the difference and the quotient are values of
  the format.
\<close>

theorem main64_prints_stock_size:
  "(\<exists>rest. main64 prc rsk stp fl dp =
       Inr ((''Stock> Number of stocks'', div64 rsk (sub64 prc stp)) # rest)
       \<and> length rest = 5)
   \<and> (val64 rsk = Some r \<and> val64 prc = Some p \<and> val64 stp = Some s \<and> p \<noteq> s
       \<and> is_double (p - s) \<and> is_double (r / (p - s))
       \<longrightarrow> val64 (numberOfStocks64 rsk prc stp) = Some (r / (p - s)))"
proof -
  have "val64 (numberOfStocks64 rsk prc stp) = Some (r / (p - s))"
    if "val64 rsk = Some r" "val64 prc = Some p" "val64 stp = Some s" "p \<noteq> s"
      "is_double (p - s)" "is_double (r / (p - s))"
  proof -
    have "val64 (sub64 prc stp) = Some (p - s)"
      using that(2,3,5) by (rule val_sub64)
    with that(1) show ?thesis
      unfolding numberOfStocks64_def using that(4,6) by (intro val_div64) auto
  qed
  then show ?thesis
    by (auto simp: main64_lines numberOfStocks64_def)
qed

theorem main64_prints_stock_size_witness:
  "(\<exists>rest. main64 (F64 False (201 / 2)) (F64 False 1100) (F64 False 95) (F64 False 90)
        (F64 False 10) =
       Inr ((''Stock> Number of stocks'', F64 False 200) # rest) \<and> length rest = 5)
   \<and> val64 (numberOfStocks64 (F64 False 1100) (F64 False (201 / 2)) (F64 False 95)) = Some 200"
proof -
  have v: "div64 (F64 False 1100) (sub64 (F64 False (201 / 2)) (F64 False 95)) = F64 False 200"
    by (simp add: eval64)
  show ?thesis
    using main64_prints_stock_size [of "F64 False (201 / 2)" "F64 False 1100" "F64 False 95"
        "F64 False 90" "F64 False 10" 1100 "201 / 2" 95] v
    by (simp add: is_double_def rnd_mag_def rne_def sval_def Let_def)
qed

section \<open>The filter of the specification's engine\<close>

lemma spec_size_all_instrument:
  "r \<in> set (spec_size_all p d tp xs) \<Longrightarrow> instrument r \<in> set xs"
proof (induction xs)
  case Nil
  then show ?case by simp
next
  case (Cons i xs)
  then show ?case
    by (auto simp: spec_PositionSizer_def Let_def split: sum.splits)
qed

lemma spec_select_rows:
  assumes "spec_select p xs n = Inr rep" and "row \<in> set (report_rows rep)"
  shows "instrument row \<in> set xs
    \<and> entryPrice p \<noteq> stopPrice p
    \<and> report_direction rep = spec_direction (entryPrice p) (stopPrice p)
    \<and> spec_passes (spec_direction (entryPrice p) (stopPrice p)) (stopPrice p) (instrument row)"
proof -
  define d where "d = spec_direction (entryPrice p) (stopPrice p)"
  from assms(1) have ne: "entryPrice p \<noteq> stopPrice p"
    by (auto simp: spec_select_def spec_TakeProfitCalculator_def split: if_splits)
  from assms(1) obtain tp where
    rep: "rep = \<lparr>report_takeProfitPrice = tp, report_direction = d,
             report_rows = take n (spec_size_all p d tp
               (spec_Ranker d (entryPrice p) (stopPrice p)
                  (spec_InstrumentFilter d (stopPrice p) xs)))\<rparr>"
    by (auto simp: spec_select_def spec_TakeProfitCalculator_def spec_ShortlistSelector_def
        Let_def d_def split: if_splits sum.splits)
  with assms(2) have "row \<in> set (spec_size_all p d tp
      (spec_Ranker d (entryPrice p) (stopPrice p) (spec_InstrumentFilter d (stopPrice p) xs)))"
    by (auto dest: in_set_takeD)
  then have "instrument row \<in> set (spec_Ranker d (entryPrice p) (stopPrice p)
      (spec_InstrumentFilter d (stopPrice p) xs))"
    by (rule spec_size_all_instrument)
  then have "instrument row \<in> set xs \<and> spec_passes d (stopPrice p) (instrument row)"
    by (simp add: spec_Ranker_def spec_InstrumentFilter_def)
  with rep ne show ?thesis by (simp add: d_def)
qed

text \<open>
  Claim C7: every instrument in the output of \<^verbatim>\<open>select\<close> comes from the input list. For a
  Long plan (entry price above the stop price) the reported direction is Long, the
  instrument's side is Long and its finance level is strictly below the stop price; for a
  Short plan (entry price below the stop price) the direction and the side are Short and
  the finance level is strictly above the stop price. An instrument that violates this, or
  whose side disagrees with the direction of the plan, is on no row of the output.
\<close>

theorem spec_select_filtered:
  assumes "spec_select p xs n = Inr rep" and "row \<in> set (report_rows rep)"
  shows "instrument row \<in> set xs
    \<and> report_direction rep = spec_direction (entryPrice p) (stopPrice p)
    \<and> side (instrument row) = spec_direction (entryPrice p) (stopPrice p)
    \<and> (stopPrice p < entryPrice p \<or> entryPrice p < stopPrice p)
    \<and> (stopPrice p < entryPrice p \<longrightarrow>
         report_direction rep = Long \<and> side (instrument row) = Long
         \<and> financeLevel_i (instrument row) < stopPrice p)
    \<and> (entryPrice p < stopPrice p \<longrightarrow>
         report_direction rep = Short \<and> side (instrument row) = Short
         \<and> financeLevel_i (instrument row) > stopPrice p)"
  using spec_select_rows [OF assms]
  by (auto simp: spec_passes_def spec_direction_def split: Direction.splits if_splits)

theorem spec_select_filtered_witness:
  "spec_select
     \<lparr>entryPrice = 201 / 2, underlyingName = ''ERIC B'', riskAmount = 1000, stopPrice = 95,
      rewardRiskRatio = 2\<rparr>
     [\<lparr>identifier_i = ''B'', underlyingName_i = ''ERIC B'', side = Long,
       financeLevel_i = 96, parityOrMultiplier = 834 / 100, lastPrice = 10\<rparr>,
      \<lparr>identifier_i = ''C'', underlyingName_i = ''ERIC B'', side = Short,
       financeLevel_i = 90, parityOrMultiplier = 834 / 100, lastPrice = 10\<rparr>,
      \<lparr>identifier_i = ''A'', underlyingName_i = ''ERIC B'', side = Long,
       financeLevel_i = 90, parityOrMultiplier = 834 / 100, lastPrice = 10\<rparr>] 3 =
   Inr \<lparr>report_takeProfitPrice = 223 / 2, report_direction = Long,
        report_rows =
          [\<lparr>instrument = \<lparr>identifier_i = ''A'', underlyingName_i = ''ERIC B'', side = Long,
               financeLevel_i = 90, parityOrMultiplier = 834 / 100, lastPrice = 10\<rparr>,
            leverage = 8757 / 10000, stopInInstrumentTerms = 417 / 1000,
            unitsAffordable = 1000000 / 9583, projectedProfit = - (8206900 / 9583)\<rparr>]\<rparr>
   \<and> financeLevel_i \<lparr>identifier_i = ''A'', underlyingName_i = ''ERIC B'', side = Long,
        financeLevel_i = 90, parityOrMultiplier = 834 / 100, lastPrice = 10\<rparr> < (95::real)"
proof -
  let ?p = "\<lparr>entryPrice = 201 / 2, underlyingName = ''ERIC B'', riskAmount = 1000,
      stopPrice = 95, rewardRiskRatio = 2\<rparr>"
  let ?A = "\<lparr>identifier_i = ''A'', underlyingName_i = ''ERIC B'', side = Long,
      financeLevel_i = 90, parityOrMultiplier = 834 / 100, lastPrice = 10\<rparr>"
  let ?xs = "[\<lparr>identifier_i = ''B'', underlyingName_i = ''ERIC B'', side = Long,
       financeLevel_i = 96, parityOrMultiplier = 834 / 100, lastPrice = 10\<rparr>,
      \<lparr>identifier_i = ''C'', underlyingName_i = ''ERIC B'', side = Short,
       financeLevel_i = 90, parityOrMultiplier = 834 / 100, lastPrice = 10\<rparr>, ?A]"
  let ?row = "\<lparr>instrument = ?A, leverage = 8757 / 10000, stopInInstrumentTerms = 417 / 1000,
      unitsAffordable = 1000000 / 9583, projectedProfit = - (8206900 / 9583)\<rparr>"
  let ?rep = "\<lparr>report_takeProfitPrice = 223 / 2, report_direction = Long,
      report_rows = [?row]\<rparr>"
  have run: "spec_select ?p ?xs 3 = Inr ?rep"
    by (simp add: spec_select_def spec_TakeProfitCalculator_def spec_takeProfitPrice_def
        spec_direction_def direction_sign_def spec_InstrumentFilter_def spec_passes_def
        spec_Ranker_def spec_rank_key_def spec_leverage_def spec_PositionSizer_def
        spec_stopInInstrumentTerms_def spec_unitsAffordable_def spec_projectedProfit_def
        spec_ShortlistSelector_def Let_def)
  have mem: "?row \<in> set (report_rows ?rep)"
    by simp
  from spec_select_filtered [OF run mem]
  have "financeLevel_i ?A < (95::real)"
    by simp
  with run show ?thesis by simp
qed

end
